theory Spec2Isabelle
  imports Main "HOL-Library.Multiset"
begin

section \<open>Registry selector\<close>

text \<open>
  The notebook imports \<^verbatim>\<open>get_approved_package\<close> from the module \<^verbatim>\<open>utils\<close> and calls it
  twice: once to check the registration
  (\<^verbatim>\<open>get_approved_package(model_package_group_name)\<close>) and once during clean-up
  (\<^verbatim>\<open>get_approved_package(model_package_group_name)["ModelPackageArn"]\<close>). The module
  itself is not among the source files: only these two calls are.
\<close>

text \<open>
  Modelled from the spec: the approval status of a model package and the
  ModelPackageRecord of section 3, \<^verbatim>\<open>{arn, creationTime, approvalStatus, imageUri,
  modelDataUrl}\<close>, which the missing module reads from the registry. A timestamp is an
  integer.
\<close>

datatype approvalStatus = Approved | Rejected | PendingManualApproval

record ModelPackageRecord =
  arn :: string
  creationTime :: int
  approvalStatus :: approvalStatus
  imageUri :: string
  modelDataUrl :: string

text \<open>
  Modelled from the spec: the error taxonomy of section 7, \<^verbatim>\<open>NotFound\<close>,
  \<^verbatim>\<open>RegistryUnavailable\<close>, \<^verbatim>\<open>CallbackTimeout\<close> and \<^verbatim>\<open>InvalidTopology\<close>.
\<close>

datatype error = NotFound | RegistryUnavailable | CallbackTimeout | InvalidTopology

text \<open>
  Modelled from the spec: the state of the external registry, which is whether the
  listing call can be completed, and the records of every model-package group in the
  order in which they were registered.
\<close>

record registry =
  reachable :: bool
  groups :: "string \<rightharpoonup> ModelPackageRecord list"

text \<open>
  Modelled from the spec: the registry query collaborator
  \<^verbatim>\<open>listModelPackages(groupName) -> sequence<ModelPackageRecord>\<close>, which the core depends
  on and does not implement. It returns the records of the group ordered by creationTime
  descending (the sort is stable, so records of equal creationTime keep the registry's
  order), signals \<open>RegistryUnavailable\<close> when the call cannot be completed and
  \<open>NotFound\<close> when the group does not exist. It is a read: the registry comes back as
  it was passed.
\<close>

definition listModelPackages ::
  "string \<Rightarrow> registry \<Rightarrow> (error + ModelPackageRecord list) \<times> registry" where
  "listModelPackages groupName reg =
     (if \<not> reachable reg then (Inl RegistryUnavailable, reg)
      else case groups reg groupName of
             None \<Rightarrow> (Inl NotFound, reg)
           | Some rs \<Rightarrow> (Inr (sort_key (\<lambda>r. - creationTime r) rs), reg))"

text \<open>
  Modelled from the spec: \<^verbatim>\<open>get_approved_package\<close> of the missing module \<^verbatim>\<open>utils\<close>
  (the specification's \<^verbatim>\<open>selectLatestApproved\<close>). Retrieve the records of the group,
  already in descending order of creationTime; filter to approvalStatus = Approved;
  select the first element of the filtered sequence. \<open>NotFound\<close> when the filtered
  sequence is empty; an error of the listing call is propagated, not retried. The
  registry is threaded through so that the effect of the call on it can be stated.
\<close>

definition get_approved_package ::
  "string \<Rightarrow> registry \<Rightarrow> (error + ModelPackageRecord) \<times> registry" where
  "get_approved_package groupName reg =
     (case listModelPackages groupName reg of
        (Inl e, reg') \<Rightarrow> (Inl e, reg')
      | (Inr listed, reg') \<Rightarrow>
          (case filter (\<lambda>r. approvalStatus r = Approved) listed of
             [] \<Rightarrow> (Inl NotFound, reg')
           | r # _ \<Rightarrow> (Inr r, reg')))"



section \<open>Pipeline definition\<close>

text \<open>
  The notebook builds the pipeline in straight-line code: a parameter, the Lambda
  function, three steps and the \<^verbatim>\<open>Pipeline\<close> object. The classes it instantiates belong to
  the SageMaker SDK; each is a record (or a constructor of \<open>step\<close>) holding the keyword
  arguments the notebook passes.
\<close>

record ParameterString =
  param_name :: string
  default_value :: string

record Lambda =
  function_name :: string
  execution_role_arn :: string
  script :: string
  handler :: string
  timeout :: nat
  memory_size :: nat

datatype LambdaOutputTypeEnum = String | Integer | Boolean | Float

record LambdaOutput =
  output_name :: string
  output_type :: LambdaOutputTypeEnum

text \<open>
  An argument of a step is a plain string, a pipeline parameter, or a reference to a
  member of an earlier step's properties, held by the step's name and the member's name
  (\<^verbatim>\<open>step.properties.Outputs["ImageUri"]\<close>, \<^verbatim>\<open>step.properties.ModelName\<close>).
\<close>

datatype pipeline_value =
    Str string
  | Param ParameterString
  | Properties string string

record Model =
  image_uri :: pipeline_value
  model_data :: pipeline_value
  model_role :: string

record CreateModelInput =
  instance_type :: string

record Transformer =
  model_name :: pipeline_value
  transformer_instance_type :: string
  instance_count :: nat
  output_path :: pipeline_value

record TransformInput =
  data :: pipeline_value

datatype step =
    LambdaStep string Lambda "(string \<times> pipeline_value) list" "LambdaOutput list"
  | CreateModelStep string Model CreateModelInput
  | TransformStep string Transformer TransformInput

record Pipeline =
  name :: string
  parameters :: "ParameterString list"
  steps :: "step list"

fun step_name :: "step \<Rightarrow> string" where
  "step_name (LambdaStep n f ins outs) = n"
| "step_name (CreateModelStep n m i) = n"
| "step_name (TransformStep n t i) = n"

text \<open>
  Modelled from the spec: the SDK's lookup \<^verbatim>\<open>step.properties.Outputs[key]\<close>, which is not
  among the source files. The Outputs of a Lambda step are the outputs it was given,
  looked up by name; a create-model step and a transform step have no Outputs. An edge
  is resolved when the definition is built, as a name-based reference and not a live
  value; referencing an output that the step does not declare fails with
  \<open>InvalidTopology\<close>.
\<close>

fun properties_Outputs :: "step \<Rightarrow> string \<Rightarrow> error + pipeline_value" where
  "properties_Outputs (LambdaStep n f ins outs) key =
     (if key \<in> set (map output_name outs) then Inr (Properties n key)
      else Inl InvalidTopology)"
| "properties_Outputs (CreateModelStep n m i) key = Inl InvalidTopology"
| "properties_Outputs (TransformStep n t i) key = Inl InvalidTopology"

text \<open>
  Modelled from the spec: the SDK's lookup \<^verbatim>\<open>step.properties.ModelName\<close>, which is not
  among the source files. The description of a created model and the description of a
  transform job both have the member ModelName; a Lambda step has only its Outputs.
\<close>

fun properties_ModelName :: "step \<Rightarrow> error + pipeline_value" where
  "properties_ModelName (LambdaStep n f ins outs) = Inl InvalidTopology"
| "properties_ModelName (CreateModelStep n m i) = Inr (Properties n ''ModelName'')"
| "properties_ModelName (TransformStep n t i) = Inr (Properties n ''ModelName'')"

text \<open>The names fixed at the top of the notebook.\<close>

definition model_package_group_name :: string where
  "model_package_group_name = ''lambdaBatchTransformPipelineModelPackageGroup''"

definition lambda_function_name :: string where
  "lambda_function_name = ''lambdaBatchTransformPipelineLambda''"

definition pipeline_name :: string where
  "pipeline_name = ''BatchTransformPipelineWithLambdaStep''"

text \<open>
  What the notebook reads from its surroundings: the execution role, the session's
  default bucket, and the location to which the sample dataset was uploaded.
\<close>

record environment =
  role :: string
  default_bucket :: string
  batch_data_uri :: string

text \<open>
  The build, in the order of the notebook's cells, with the list of outputs declared by
  the Lambda step left open. A failed lookup ends the build, as the exception would.
\<close>

definition build_pipeline_with :: "LambdaOutput list \<Rightarrow> environment \<Rightarrow> error + Pipeline" where
  "build_pipeline_with lambda_outputs env =
     (let batch_data = \<lparr>param_name = ''BatchData'', default_value = batch_data_uri env\<rparr>;
          func = \<lparr>function_name = lambda_function_name,
                  execution_role_arn = role env,
                  script = ''lambda_step_code.py'',
                  handler = ''lambda_step_code.handler'',
                  timeout = 600,
                  memory_size = 128\<rparr>;
          step_latest_model_fetch =
            LambdaStep ''fetchLatestModel'' func
              [(''model_package_group_name'', Str model_package_group_name)]
              lambda_outputs
      in case properties_Outputs step_latest_model_fetch ''ImageUri'' of
           Inl e \<Rightarrow> Inl e
         | Inr image_ref \<Rightarrow>
      (case properties_Outputs step_latest_model_fetch ''ModelUrl'' of
           Inl e \<Rightarrow> Inl e
         | Inr model_data_ref \<Rightarrow>
      (let model = \<lparr>image_uri = image_ref, model_data = model_data_ref, model_role = role env\<rparr>;
           inputs = \<lparr>instance_type = ''ml.m5.large''\<rparr>;
           step_create_model = CreateModelStep ''CreateModel'' model inputs
       in case properties_ModelName step_create_model of
            Inl e \<Rightarrow> Inl e
          | Inr model_name_ref \<Rightarrow>
      (let transformer = \<lparr>model_name = model_name_ref,
                          transformer_instance_type = ''ml.m5.large'',
                          instance_count = 1,
                          output_path = Str (''s3://'' @ default_bucket env @ ''/AbaloneTransform'')\<rparr>;
           step_transform = TransformStep ''Transform'' transformer \<lparr>data = Param batch_data\<rparr>
       in Inr \<lparr>name = pipeline_name,
               parameters = [batch_data],
               steps = [step_latest_model_fetch, step_create_model, step_transform]\<rparr>))))"

text \<open>The outputs the notebook declares for the Lambda step, and the build it performs.\<close>

definition notebook_outputs :: "LambdaOutput list" where
  "notebook_outputs =
     [\<lparr>output_name = ''ModelUrl'', output_type = String\<rparr>,
      \<lparr>output_name = ''ImageUri'', output_type = String\<rparr>]"

definition build_pipeline :: "environment \<Rightarrow> error + Pipeline" where
  "build_pipeline env = build_pipeline_with notebook_outputs env"

text \<open>
  Modelled from the spec: the value of a parameter in a run, which the orchestrating
  service computes. A parameter can be set at the start of each run; if it is not set,
  its default value is used. The overrides are the values supplied at the start, by
  parameter name.
\<close>

definition parameter_value :: "(string \<rightharpoonup> string) \<Rightarrow> ParameterString \<Rightarrow> string" where
  "parameter_value overrides p =
     (case overrides (param_name p) of Some v \<Rightarrow> v | None \<Rightarrow> default_value p)"

text \<open>
  Modelled from the spec: the value the orchestrator substitutes for an argument in a
  run. A plain string is itself, a parameter has its value in the run, and a reference
  is the output of the step it names, once that step has produced it.
\<close>

fun resolve ::
  "(string \<rightharpoonup> string) \<Rightarrow> (string \<Rightarrow> string \<rightharpoonup> string) \<Rightarrow> pipeline_value \<Rightarrow> string option" where
  "resolve overrides produced (Str s) = Some s"
| "resolve overrides produced (Param p) = Some (parameter_value overrides p)"
| "resolve overrides produced (Properties s member) = produced s member"

section \<open>Properties of the registry selector\<close>

lemma approved_head_max:
  assumes "sorted (map (\<lambda>r. - creationTime r) xs)"
      and "filter (\<lambda>r. approvalStatus r = Approved) xs = r # rest"
  shows "r \<in> set xs \<and> approvalStatus r = Approved \<and>
         (\<forall>r'\<in>set xs. approvalStatus r' = Approved \<longrightarrow> creationTime r' \<le> creationTime r)"
proof -
  let ?P = "\<lambda>r. approvalStatus r = Approved"
  have mem: "r \<in> set (filter ?P xs)" using assms(2) by simp
  have "sorted (map (\<lambda>r. - creationTime r) (filter ?P xs))"
    using assms(1) by (rule sorted_filter)
  then have "\<forall>y\<in>set rest. - creationTime r \<le> - creationTime y"
    using assms(2) by simp
  moreover have "set (filter ?P xs) = insert r (set rest)"
    using assms(2) by simp
  ultimately have "\<forall>y\<in>set (filter ?P xs). creationTime y \<le> creationTime r"
    by auto
  then show ?thesis using mem by auto
qed

lemma get_approved_package_listed:
  assumes "reachable reg" and "groups reg g = Some rs"
  shows "get_approved_package g reg =
     (case filter (\<lambda>r. approvalStatus r = Approved) (sort_key (\<lambda>r. - creationTime r) rs) of
        [] \<Rightarrow> (Inl NotFound, reg) | r # _ \<Rightarrow> (Inr r, reg))"
  using assms by (simp add: get_approved_package_def listModelPackages_def)

lemma listModelPackages_reads: "snd (listModelPackages g reg) = reg"
  by (simp add: listModelPackages_def split: option.split)

text \<open>
  Claim C1. Whenever the registry can be reached and the records of the group contain at
  least one Approved record, \<open>get_approved_package\<close> returns a record of the group that
  is Approved and whose creationTime is the maximum among the Approved records of the
  group. In particular, for the records A (time 10, Approved), B (time 20, Rejected) and
  C (time 15, Approved) it returns C.
\<close>

theorem get_approved_package_latest_approved:
  "(reachable reg \<and> groups reg g = Some rs \<and> (\<exists>r\<in>set rs. approvalStatus r = Approved) \<longrightarrow>
     (\<exists>r. fst (get_approved_package g reg) = Inr r \<and> r \<in> set rs \<and>
          approvalStatus r = Approved \<and>
          (\<forall>r'\<in>set rs. approvalStatus r' = Approved \<longrightarrow> creationTime r' \<le> creationTime r)))
   \<and> fst (get_approved_package g
        \<lparr>reachable = True, groups = [g \<mapsto>
           [\<lparr>arn = ''A'', creationTime = 10, approvalStatus = Approved,
             imageUri = iA, modelDataUrl = dA\<rparr>,
            \<lparr>arn = ''B'', creationTime = 20, approvalStatus = Rejected,
             imageUri = iB, modelDataUrl = dB\<rparr>,
            \<lparr>arn = ''C'', creationTime = 15, approvalStatus = Approved,
             imageUri = iC, modelDataUrl = dC\<rparr>]]\<rparr>)
      = Inr \<lparr>arn = ''C'', creationTime = 15, approvalStatus = Approved,
             imageUri = iC, modelDataUrl = dC\<rparr>"
proof (intro conjI impI)
  assume a: "reachable reg \<and> groups reg g = Some rs \<and> (\<exists>r\<in>set rs. approvalStatus r = Approved)"
  let ?P = "\<lambda>r. approvalStatus r = Approved"
  let ?xs = "sort_key (\<lambda>r. - creationTime r) rs"
  from a have "filter ?P ?xs \<noteq> []"
    by (auto simp: filter_empty_conv)
  then obtain r rest where f: "filter ?P ?xs = r # rest"
    by (cases "filter ?P ?xs") auto
  have s: "sorted (map (\<lambda>r. - creationTime r) ?xs)"
    by (rule sorted_sort_key)
  from approved_head_max [OF s f]
  have "r \<in> set rs \<and> approvalStatus r = Approved \<and>
        (\<forall>r'\<in>set rs. approvalStatus r' = Approved \<longrightarrow> creationTime r' \<le> creationTime r)"
    by simp
  moreover have "fst (get_approved_package g reg) = Inr r"
    using a f by (simp add: get_approved_package_listed)
  ultimately show "\<exists>r. fst (get_approved_package g reg) = Inr r \<and> r \<in> set rs \<and>
      approvalStatus r = Approved \<and>
      (\<forall>r'\<in>set rs. approvalStatus r' = Approved \<longrightarrow> creationTime r' \<le> creationTime r)"
    by blast
next
  show "fst (get_approved_package g
        \<lparr>reachable = True, groups = [g \<mapsto>
           [\<lparr>arn = ''A'', creationTime = 10, approvalStatus = Approved,
             imageUri = iA, modelDataUrl = dA\<rparr>,
            \<lparr>arn = ''B'', creationTime = 20, approvalStatus = Rejected,
             imageUri = iB, modelDataUrl = dB\<rparr>,
            \<lparr>arn = ''C'', creationTime = 15, approvalStatus = Approved,
             imageUri = iC, modelDataUrl = dC\<rparr>]]\<rparr>)
      = Inr \<lparr>arn = ''C'', creationTime = 15, approvalStatus = Approved,
             imageUri = iC, modelDataUrl = dC\<rparr>"
    by (simp add: get_approved_package_def listModelPackages_def)
qed

theorem get_approved_package_latest_approved_witness:
  "reachable \<lparr>reachable = True, groups = [''grp'' \<mapsto>
       [\<lparr>arn = ''A'', creationTime = 10, approvalStatus = Approved,
         imageUri = ''imgA'', modelDataUrl = ''urlA''\<rparr>,
        \<lparr>arn = ''B'', creationTime = 20, approvalStatus = Rejected,
         imageUri = ''imgB'', modelDataUrl = ''urlB''\<rparr>,
        \<lparr>arn = ''C'', creationTime = 15, approvalStatus = Approved,
         imageUri = ''imgC'', modelDataUrl = ''urlC''\<rparr>]]\<rparr> \<and>
   (\<exists>r. fst (get_approved_package ''grp'' \<lparr>reachable = True, groups = [''grp'' \<mapsto>
       [\<lparr>arn = ''A'', creationTime = 10, approvalStatus = Approved,
         imageUri = ''imgA'', modelDataUrl = ''urlA''\<rparr>,
        \<lparr>arn = ''B'', creationTime = 20, approvalStatus = Rejected,
         imageUri = ''imgB'', modelDataUrl = ''urlB''\<rparr>,
        \<lparr>arn = ''C'', creationTime = 15, approvalStatus = Approved,
         imageUri = ''imgC'', modelDataUrl = ''urlC''\<rparr>]]\<rparr>) = Inr r \<and>
      arn r = ''C'' \<and> creationTime r = 15 \<and> approvalStatus r = Approved)"
proof -
  let ?rs = "[\<lparr>arn = ''A'', creationTime = 10, approvalStatus = Approved,
         imageUri = ''imgA'', modelDataUrl = ''urlA''\<rparr>,
        \<lparr>arn = ''B'', creationTime = 20, approvalStatus = Rejected,
         imageUri = ''imgB'', modelDataUrl = ''urlB''\<rparr>,
        \<lparr>arn = ''C'', creationTime = 15, approvalStatus = Approved,
         imageUri = ''imgC'', modelDataUrl = ''urlC''\<rparr>]"
  let ?reg = "\<lparr>reachable = True, groups = [''grp'' \<mapsto> ?rs]\<rparr>"
  have h: "reachable ?reg \<and> groups ?reg ''grp'' = Some ?rs \<and>
           (\<exists>r\<in>set ?rs. approvalStatus r = Approved)"
    by simp
  with get_approved_package_latest_approved [of ?reg "''grp''" ?rs]
  obtain r where r: "fst (get_approved_package ''grp'' ?reg) = Inr r" "r \<in> set ?rs"
      "approvalStatus r = Approved"
      "\<forall>r'\<in>set ?rs. approvalStatus r' = Approved \<longrightarrow> creationTime r' \<le> creationTime r"
    by blast
  from r(2,3,4) have "arn r = ''C'' \<and> creationTime r = 15"
    by auto
  with r(1,3) show ?thesis by simp
qed

text \<open>
  Claim C2. Whenever the registry can be reached and the records of the group contain no
  Approved record (the empty collection included), \<open>get_approved_package\<close> fails with
  \<open>NotFound\<close>: no record is selected.
\<close>

theorem get_approved_package_not_found:
  assumes "reachable reg" and "groups reg g = Some rs"
      and "\<forall>r\<in>set rs. approvalStatus r \<noteq> Approved"
  shows "fst (get_approved_package g reg) = Inl NotFound"
proof -
  from assms(3)
  have "filter (\<lambda>r. approvalStatus r = Approved) (sort_key (\<lambda>r. - creationTime r) rs) = []"
    by (simp add: filter_empty_conv)
  with assms(1,2) show ?thesis
    by (simp add: get_approved_package_listed)
qed

theorem get_approved_package_not_found_witness:
  "fst (get_approved_package ''grp'' \<lparr>reachable = True, groups = [''grp'' \<mapsto> []]\<rparr>)
     = Inl NotFound
   \<and> fst (get_approved_package ''grp'' \<lparr>reachable = True, groups = [''grp'' \<mapsto>
        [\<lparr>arn = ''B'', creationTime = 20, approvalStatus = Rejected,
          imageUri = ''imgB'', modelDataUrl = ''urlB''\<rparr>,
         \<lparr>arn = ''D'', creationTime = 30, approvalStatus = PendingManualApproval,
          imageUri = ''imgD'', modelDataUrl = ''urlD''\<rparr>]]\<rparr>)
     = Inl NotFound"
proof -
  let ?rs = "[\<lparr>arn = ''B'', creationTime = 20, approvalStatus = Rejected,
          imageUri = ''imgB'', modelDataUrl = ''urlB''\<rparr>,
         \<lparr>arn = ''D'', creationTime = 30, approvalStatus = PendingManualApproval,
          imageUri = ''imgD'', modelDataUrl = ''urlD''\<rparr>]"
  have "fst (get_approved_package ''grp'' \<lparr>reachable = True, groups = [''grp'' \<mapsto> []]\<rparr>)
          = Inl NotFound"
    by (rule get_approved_package_not_found [where rs = "[]"]) simp_all
  moreover
  have "fst (get_approved_package ''grp'' \<lparr>reachable = True, groups = [''grp'' \<mapsto> ?rs]\<rparr>)
          = Inl NotFound"
    by (rule get_approved_package_not_found [where rs = ?rs]) simp_all
  ultimately show ?thesis by simp
qed







text \<open>
  Claim C9. \<open>get_approved_package\<close> is a pure read: for every group name and every
  state of the registry, the registry after the call is the registry before it, so every
  record and the membership of every group are unchanged.
\<close>

theorem get_approved_package_pure_read:
  "snd (get_approved_package g reg) = reg"
proof (cases "listModelPackages g reg")
  case (Pair res reg')
  with listModelPackages_reads [of g reg] have "reg' = reg" by simp
  with Pair show ?thesis
    by (simp add: get_approved_package_def split: sum.split list.split)
qed

section \<open>Properties of the pipeline definition\<close>

text \<open>
  The build succeeds exactly when the Lambda step declares both outputs that the model
  refers to, and then its result is the pipeline written out below.
\<close>

lemma build_pipeline_with_result:
  "build_pipeline_with outs env =
     (if ''ImageUri'' \<in> output_name ` set outs \<and> ''ModelUrl'' \<in> output_name ` set outs
      then Inr \<lparr>name = pipeline_name,
                parameters = [\<lparr>param_name = ''BatchData'', default_value = batch_data_uri env\<rparr>],
                steps =
                  [LambdaStep ''fetchLatestModel''
                     \<lparr>function_name = lambda_function_name,
                      execution_role_arn = role env,
                      script = ''lambda_step_code.py'',
                      handler = ''lambda_step_code.handler'',
                      timeout = 600,
                      memory_size = 128\<rparr>
                     [(''model_package_group_name'', Str model_package_group_name)]
                     outs,
                   CreateModelStep ''CreateModel''
                     \<lparr>image_uri = Properties ''fetchLatestModel'' ''ImageUri'',
                      model_data = Properties ''fetchLatestModel'' ''ModelUrl'',
                      model_role = role env\<rparr>
                     \<lparr>instance_type = ''ml.m5.large''\<rparr>,
                   TransformStep ''Transform''
                     \<lparr>model_name = Properties ''CreateModel'' ''ModelName'',
                      transformer_instance_type = ''ml.m5.large'',
                      instance_count = 1,
                      output_path = Str (''s3://'' @ default_bucket env @ ''/AbaloneTransform'')\<rparr>
                     \<lparr>data = Param \<lparr>param_name = ''BatchData'',
                                     default_value = batch_data_uri env\<rparr>\<rparr>]\<rparr>
      else Inl InvalidTopology)"
  by (simp add: build_pipeline_with_def Let_def)

lemma notebook_outputs_names:
  "output_name ` set notebook_outputs = {''ModelUrl'', ''ImageUri''}"
  by (simp add: notebook_outputs_def)

text \<open>
  Claim C3. The build produces a pipeline of exactly three steps, in this order: the
  Lambda step \<^verbatim>\<open>fetchLatestModel\<close> (the specification's external-callback node
  FetchLatestModel), the create-model step \<^verbatim>\<open>CreateModel\<close> and the transform step
  \<^verbatim>\<open>Transform\<close>. The first declares exactly the two outputs ModelUrl and ImageUri, both
  of type String. The model of the second refers by name to the outputs ImageUri and
  ModelUrl of the first. The transformer of the third refers to the ModelName of the
  second, and its input data is the pipeline's parameter.
\<close>

theorem build_pipeline_three_nodes:
  "\<exists>p func ins model cmi transformer batch_data.
     build_pipeline env = Inr p \<and>
     steps p =
       [LambdaStep ''fetchLatestModel'' func ins
          [\<lparr>output_name = ''ModelUrl'', output_type = String\<rparr>,
           \<lparr>output_name = ''ImageUri'', output_type = String\<rparr>],
        CreateModelStep ''CreateModel'' model cmi,
        TransformStep ''Transform'' transformer \<lparr>data = Param batch_data\<rparr>] \<and>
     image_uri model = Properties ''fetchLatestModel'' ''ImageUri'' \<and>
     model_data model = Properties ''fetchLatestModel'' ''ModelUrl'' \<and>
     model_name transformer = Properties ''CreateModel'' ''ModelName'' \<and>
     parameters p = [batch_data]"
  by (simp add: build_pipeline_def build_pipeline_with_result notebook_outputs_names)
     (simp add: notebook_outputs_def)



text \<open>
  Claim C8. The pipeline that the build produces has exactly one parameter, the string
  parameter named BatchData, whose default value is the location of the uploaded data.
  It is the input data of the transform step. In a run its value is the default when no
  value is supplied at the start, and the supplied value otherwise.
\<close>

theorem build_pipeline_parameter_surface:
  "\<exists>p s1 s2 n t batch_data.
     build_pipeline env = Inr p \<and>
     parameters p = [batch_data] \<and>
     param_name batch_data = ''BatchData'' \<and>
     default_value batch_data = batch_data_uri env \<and>
     steps p = [s1, s2, TransformStep n t \<lparr>data = Param batch_data\<rparr>] \<and>
     parameter_value Map.empty batch_data = batch_data_uri env \<and>
     (\<forall>overrides v. parameter_value (overrides(''BatchData'' \<mapsto> v)) batch_data = v) \<and>
     (\<forall>overrides produced. resolve overrides produced (Param batch_data) =
        Some (case overrides ''BatchData'' of Some v \<Rightarrow> v | None \<Rightarrow> batch_data_uri env))"
  by (simp add: build_pipeline_def build_pipeline_with_result notebook_outputs_names
        parameter_value_def split: option.split)

text \<open>
  Claim C10. In the pipeline that the build produces, the output path of the transform
  step is the plain string \<^verbatim>\<open>s3://<default_bucket>/AbaloneTransform\<close>, fixed when the
  pipeline is built. Whatever values are supplied at the start of a run and whatever the
  earlier steps produce, it resolves to that string, while the input data resolves to the
  value of the parameter BatchData: only the input location is configurable per run.
\<close>

theorem transform_output_path_fixed:
  "\<exists>p s1 s2 n t i.
     build_pipeline env = Inr p \<and>
     steps p = [s1, s2, TransformStep n t i] \<and>
     output_path t = Str (''s3://'' @ default_bucket env @ ''/AbaloneTransform'') \<and>
     (\<forall>overrides produced. resolve overrides produced (output_path t) =
        Some (''s3://'' @ default_bucket env @ ''/AbaloneTransform'')) \<and>
     (\<forall>overrides produced. resolve overrides produced (data i) =
        Some (case overrides ''BatchData'' of Some v \<Rightarrow> v | None \<Rightarrow> batch_data_uri env))"
  by (simp add: build_pipeline_def build_pipeline_with_result notebook_outputs_names
        parameter_value_def split: option.split)

end
